theory Spec2Isabelle
  imports Complex_Main
begin

section \<open>Data model\<close>

text \<open>
  The program is a single Python module, \<^verbatim>\<open>app_streamlit_COMPLETE.py\<close>. Its decision
  layer consists of \<^verbatim>\<open>load_model\<close>, \<^verbatim>\<open>preprocess_input\<close>, \<^verbatim>\<open>get_risk_level\<close>,
  \<^verbatim>\<open>get_recommendations\<close> and the prediction branch of \<^verbatim>\<open>main\<close>.

  Numbers. The churn probability and the feature values are Python numbers (\<^verbatim>\<open>int\<close> and
  \<^verbatim>\<open>float\<close>). They are embedded as \<^typ>\<open>real\<close>: the comparisons \<^verbatim>\<open>>=\<close> and \<^verbatim>\<open>>\<close>
  of the source are the order of the reals on the values the numbers denote, and a decimal
  literal such as \<^verbatim>\<open>0.7\<close> stands for the rational it is written as. Rounding of literals
  and the non-numbers of IEEE arithmetic are outside the embedding.

  Strings. A Python \<^verbatim>\<open>str\<close> is a sequence of Unicode code points. Dictionary keys, file
  paths and colour codes of the source are pure ASCII and are embedded as \<^typ>\<open>string\<close>.
  The display texts (Korean, with emoji) are embedded as the list of their code points.
\<close>

type_synonym pystr = "nat list"

text \<open>
  A raised Python exception: the name of its class and its argument. The exceptions of the
  interpreter itself that the modelled code can raise are \<^verbatim>\<open>KeyError\<close> (argument: the
  missing key), \<^verbatim>\<open>IndexError\<close>, \<^verbatim>\<open>TypeError\<close> and \<^verbatim>\<open>AttributeError\<close> (argument: the
  attribute asked for). The scaler and the classifier of the artifact may raise anything.
\<close>

datatype exn = Exn (exn_class: string) (exn_arg: string)

abbreviation KeyError :: "string \<Rightarrow> exn" where
  "KeyError k \<equiv> Exn ''KeyError'' k"

abbreviation IndexError :: exn where
  "IndexError \<equiv> Exn ''IndexError'' ''index out of range''"

abbreviation TypeError :: exn where
  "TypeError \<equiv> Exn ''TypeError'' ''object is not iterable''"

abbreviation AttributeError :: "string \<Rightarrow> exn" where
  "AttributeError a \<equiv> Exn ''AttributeError'' a"

text \<open>Subscription \<^verbatim>\<open>d[k]\<close> of a dictionary: a missing key raises \<^verbatim>\<open>KeyError\<close>.\<close>

definition getitem :: "(string \<rightharpoonup> 'v) \<Rightarrow> string \<Rightarrow> exn + 'v" where
  "getitem d k = (case d k of None \<Rightarrow> Inl (KeyError k) | Some v \<Rightarrow> Inr v)"

text \<open>Subscription \<^verbatim>\<open>xs[i]\<close> of a sequence at a non-negative literal index.\<close>

definition subscript :: "'a list \<Rightarrow> nat \<Rightarrow> exn + 'a" where
  "subscript xs i = (if i < length xs then Inr (xs ! i) else Inl IndexError)"

section \<open>Risk tiers: \<^verbatim>\<open>get_risk_level\<close>\<close>

text \<open>
  The dictionary returned by \<^verbatim>\<open>get_risk_level\<close> always has the three keys
  \<^verbatim>\<open>'level'\<close>, \<^verbatim>\<open>'color'\<close> and \<^verbatim>\<open>'emoji'\<close>.
\<close>

record risk =
  level :: pystr
  color :: string
  emoji :: pystr

text \<open>
  The display texts of the four levels, as code points: ``very high'' (five code points,
  with a space), ``high'', ``normal'' and ``low''; and the four coloured-circle emoji
  (red U+1F534, orange U+1F7E0, yellow U+1F7E1, green U+1F7E2).
\<close>

definition level_very_high :: pystr where
  "level_very_high = [47588, 50864, 32, 45458, 51020]"

definition level_high :: pystr where
  "level_high = [45458, 51020]"

definition level_normal :: pystr where
  "level_normal = [48372, 53685]"

definition level_low :: pystr where
  "level_low = [45230, 51020]"

definition get_risk_level :: "real \<Rightarrow> risk" where
  "get_risk_level churn_prob =
     (if churn_prob \<ge> 0.7 then
        \<lparr>level = level_very_high, color = ''#e74c3c'', emoji = [128308]\<rparr>
      else if churn_prob \<ge> 0.5 then
        \<lparr>level = level_high, color = ''#f39c12'', emoji = [128992]\<rparr>
      else if churn_prob \<ge> 0.3 then
        \<lparr>level = level_normal, color = ''#3498db'', emoji = [128993]\<rparr>
      else
        \<lparr>level = level_low, color = ''#2ecc71'', emoji = [128994]\<rparr>)"

text \<open>
  The specification names the four results Critical, High, Moderate and Low. The tier of a
  result is read off its \<^verbatim>\<open>'level'\<close> text; any other text is no tier.
\<close>

datatype RiskTier = Low | Moderate | High | Critical

definition tier_of_level :: "pystr \<Rightarrow> RiskTier option" where
  "tier_of_level l =
     (if l = level_very_high then Some Critical
      else if l = level_high then Some High
      else if l = level_normal then Some Moderate
      else if l = level_low then Some Low
      else None)"

definition risk_tier :: "real \<Rightarrow> RiskTier option" where
  "risk_tier churn_prob = tier_of_level (level (get_risk_level churn_prob))"

section \<open>Recommendations: \<^verbatim>\<open>get_recommendations\<close>\<close>

text \<open>
  The eleven message literals of \<^verbatim>\<open>get_recommendations\<close>, as code points. Each starts with
  an emoji and a bold heading; the headings read, in order of appearance in the source:
  immediate action needed (VIP discount coupon), personal consultation (customer service
  contacts at once), special promotion, re-engagement campaign, monitoring, loyalty
  programme, retention maintenance, referral request, service improvement, checkout
  process improvement, repurchase inducement.
\<close>

definition msg_urgent_intervention :: pystr where
  "msg_urgent_intervention =
     [128680, 32, 42, 42, 51593, 49884, 32, 51312, 52824, 32, 54596, 50836, 42, 42, 58, 32,
      86, 73, 80, 32, 54624, 51064, 32, 53216, 54256, 32, 51228, 44277]"

definition msg_direct_contact :: pystr where
  "msg_direct_contact =
     [128222, 32, 42, 42, 44060, 51064, 32, 49345, 45812, 42, 42, 58, 32, 44256, 44061, 32,
      49436, 48708, 49828, 32, 54016, 32, 51593, 49884, 32, 50672, 46973]"

definition msg_promotion :: pystr where
  "msg_promotion =
     [127873, 32, 42, 42, 53945, 48324, 32, 54532, 47196, 47784, 49496, 42, 42, 58, 32,
      47582, 52644, 54805, 32, 54624, 51064, 32, 51228, 50504]"

definition msg_reengagement_campaign :: pystr where
  "msg_reengagement_campaign =
     [128231, 32, 42, 42, 51116, 52280, 50668, 32, 52896, 54168, 51064, 42, 42, 58, 32,
      51060, 47700, 51068, 32, 47560, 52992, 54021, 32, 44053, 54868]"

definition msg_monitoring :: pystr where
  "msg_monitoring =
     [128064, 32, 42, 42, 47784, 45768, 53552, 47553, 42, 42, 58, 32, 51221, 44592, 51201,
      51064, 32, 54876, 46041, 32, 52628, 51201]"

definition msg_loyalty_program :: pystr where
  "msg_loyalty_program =
     [128157, 32, 42, 42, 47196, 50676, 54000, 32, 54532, 47196, 44536, 47016, 42, 42, 58,
      32, 54252, 51064, 53944, 32, 51201, 47549, 32, 54812, 53469]"

definition msg_retention_maintenance :: pystr where
  "msg_retention_maintenance =
     [9989, 32, 42, 42, 50976, 51648, 32, 44288, 47532, 42, 42, 58, 32, 54788, 51116, 32,
      47564, 51313, 46020, 32, 50976, 51648]"

definition msg_referral :: pystr where
  "msg_referral =
     [127775, 32, 42, 42, 52628, 52380, 32, 50836, 52397, 42, 42, 58, 32, 49888, 44508, 32,
      44256, 44061, 32, 52628, 52380, 32, 50976, 46020]"

definition msg_service_escalation :: pystr where
  "msg_service_escalation =
     [127384, 32, 42, 42, 49436, 48708, 49828, 32, 44060, 49440, 42, 42, 58, 32, 44256,
      44061, 32, 48520, 47564, 32, 49324, 54637, 32, 54644, 44208]"

definition msg_checkout_improvement :: pystr where
  "msg_checkout_improvement =
     [128722, 32, 42, 42, 44208, 51228, 32, 54532, 47196, 49464, 49828, 32, 44060, 49440, 42,
      42, 58, 32, 51109, 48148, 44396, 45768, 32, 51060, 53448, 32, 48169, 51648]"

definition msg_win_back :: pystr where
  "msg_win_back =
     [128276, 32, 42, 42, 51116, 44396, 47588, 32, 50976, 46020, 42, 42, 58, 32, 49888,
      51228, 54408, 32, 50504, 45236, 32, 48143, 32, 54624, 51064]"

text \<open>
  \<^verbatim>\<open>get_recommendations(churn_prob, input_data)\<close>. The list \<^verbatim>\<open>recommendations\<close> is local;
  each \<^verbatim>\<open>append\<close> is written as \<open>@\<close>. The three subscriptions of \<^verbatim>\<open>input_data\<close>
  happen in the order of the source, and the first missing key raises.
\<close>

definition get_recommendations :: "real \<Rightarrow> (string \<rightharpoonup> real) \<Rightarrow> exn + pystr list" where
  "get_recommendations churn_prob input_data =
     (let recommendations = [];
          recommendations =
            (if churn_prob \<ge> 0.7 then
               (recommendations @ [msg_urgent_intervention]) @ [msg_direct_contact]
             else if churn_prob \<ge> 0.5 then
               (recommendations @ [msg_promotion]) @ [msg_reengagement_campaign]
             else if churn_prob \<ge> 0.3 then
               (recommendations @ [msg_monitoring]) @ [msg_loyalty_program]
             else
               (recommendations @ [msg_retention_maintenance]) @ [msg_referral])
      in (case getitem input_data ''Customer_Service_Calls'' of
            Inl e \<Rightarrow> Inl e
          | Inr calls \<Rightarrow>
             (let recommendations =
                    (if calls > 5 then recommendations @ [msg_service_escalation]
                     else recommendations)
              in (case getitem input_data ''Cart_Abandonment_Rate'' of
                    Inl e \<Rightarrow> Inl e
                  | Inr abandonment \<Rightarrow>
                     (let recommendations =
                            (if abandonment > 60
                             then recommendations @ [msg_checkout_improvement]
                             else recommendations)
                      in (case getitem input_data ''Days_Since_Last_Purchase'' of
                            Inl e \<Rightarrow> Inl e
                          | Inr days \<Rightarrow>
                             (let recommendations =
                                    (if days > 60 then recommendations @ [msg_win_back]
                                     else recommendations)
                              in Inr recommendations)))))))"

text \<open>
  The table of the specification (section 4.3, step 1): the two base messages of each tier,
  and the three supplementary messages in the order of its step 2.
\<close>

fun base_messages :: "RiskTier \<Rightarrow> pystr list" where
  "base_messages Critical = [msg_urgent_intervention, msg_direct_contact]"
| "base_messages High = [msg_promotion, msg_reengagement_campaign]"
| "base_messages Moderate = [msg_monitoring, msg_loyalty_program]"
| "base_messages Low = [msg_retention_maintenance, msg_referral]"

definition all_base_messages :: "pystr list" where
  "all_base_messages =
     base_messages Critical @ base_messages High @ base_messages Moderate @ base_messages Low"

definition supplementary_messages :: "pystr list" where
  "supplementary_messages =
     [msg_service_escalation, msg_checkout_improvement, msg_win_back]"

text \<open>The three keys that \<^verbatim>\<open>get_recommendations\<close> reads from \<^verbatim>\<open>input_data\<close>.\<close>

definition checked_keys :: "string list" where
  "checked_keys =
     [''Customer_Service_Calls'', ''Cart_Abandonment_Rate'', ''Days_Since_Last_Purchase'']"

definition has_checked_keys :: "(string \<rightharpoonup> real) \<Rightarrow> bool" where
  "has_checked_keys input_data = list_all (\<lambda>k. input_data k \<noteq> None) checked_keys"

text \<open>
  What the three feature checks of \<^verbatim>\<open>get_recommendations\<close> append, in the order of the
  source, for given values of the three features.
\<close>

definition supplement :: "real \<Rightarrow> real \<Rightarrow> real \<Rightarrow> pystr list" where
  "supplement calls abandonment days =
     (if calls > 5 then [msg_service_escalation] else [])
     @ (if abandonment > 60 then [msg_checkout_improvement] else [])
     @ (if days > 60 then [msg_win_back] else [])"

section \<open>The model artifact and \<^verbatim>\<open>preprocess_input\<close>\<close>

text \<open>
  \<^verbatim>\<open>model_package\<close> is the unpickled dictionary. The values the modelled code reads from
  it are the list of feature names, the fitted scaler (its \<^verbatim>\<open>transform\<close>) and the fitted
  classifier (its \<^verbatim>\<open>predict\<close> and \<^verbatim>\<open>predict_proba\<close>). Scaler and classifier are opaque:
  functions on a matrix (a list of rows) that return a result or raise. \<open>Number\<close> stands
  for the values of the reporting fields and for any value that is neither iterable nor
  has the methods asked for.
\<close>

type_synonym matrix = "real list list"

datatype pyobj =
    Names "string list"
  | Scaler "matrix \<Rightarrow> exn + matrix"
  | Classifier "matrix \<Rightarrow> exn + int list" "matrix \<Rightarrow> exn + matrix"
  | Number real

text \<open>Sequencing of statements that may raise: the first exception ends the run.\<close>

definition and_then :: "exn + 'a \<Rightarrow> ('a \<Rightarrow> exn + 'b) \<Rightarrow> exn + 'b" where
  "and_then r f = (case r of Inl e \<Rightarrow> Inl e | Inr x \<Rightarrow> f x)"

text \<open>\<^verbatim>\<open>for col in feature_names\<close>: only the list of names can be iterated.\<close>

fun iterate :: "pyobj \<Rightarrow> exn + string list" where
  "iterate (Names ns) = Inr ns"
| "iterate _ = Inl TypeError"

text \<open>The method calls \<^verbatim>\<open>scaler.transform(df)\<close>, \<^verbatim>\<open>model.predict(X)\<close>, \<^verbatim>\<open>model.predict_proba(X)\<close>.\<close>

fun transform :: "pyobj \<Rightarrow> matrix \<Rightarrow> exn + matrix" where
  "transform (Scaler f) X = f X"
| "transform _ X = Inl (AttributeError ''transform'')"

fun predict :: "pyobj \<Rightarrow> matrix \<Rightarrow> exn + int list" where
  "predict (Classifier f g) X = f X"
| "predict _ X = Inl (AttributeError ''predict'')"

fun predict_proba :: "pyobj \<Rightarrow> matrix \<Rightarrow> exn + matrix" where
  "predict_proba (Classifier f g) X = g X"
| "predict_proba _ X = Inl (AttributeError ''predict_proba'')"

text \<open>
  \<^verbatim>\<open>pd.DataFrame([data])\<close> is a frame of one row whose columns are the keys of \<^verbatim>\<open>data\<close>.
  A one-row frame is embedded as the map from column label to the cell. The order of the
  columns of the intermediate frame is not kept: the last step of the alignment selects the
  columns by label, in the order of \<^verbatim>\<open>feature_names\<close>.

  The loop \<^verbatim>\<open>for col in feature_names: if col not in df.columns: df[col] = 0\<close>:
\<close>

definition fill_missing :: "string list \<Rightarrow> (string \<rightharpoonup> real) \<Rightarrow> (string \<rightharpoonup> real)" where
  "fill_missing feature_names df =
     fold (\<lambda>col df. if df col = None then df(col \<mapsto> 0) else df) feature_names df"

text \<open>
  \<^verbatim>\<open>df[feature_names]\<close>: the cells of the listed columns, in the order of the list; a label
  that is not a column raises \<^verbatim>\<open>KeyError\<close>.
\<close>

fun select_columns :: "(string \<rightharpoonup> real) \<Rightarrow> string list \<Rightarrow> exn + real list" where
  "select_columns df [] = Inr []"
| "select_columns df (col # cols) =
     (case df col of
        None \<Rightarrow> Inl (KeyError col)
      | Some v \<Rightarrow> and_then (select_columns df cols) (\<lambda>vs. Inr (v # vs)))"

text \<open>
  The alignment, lines 164 to 171 of \<^verbatim>\<open>preprocess_input\<close>: the frame is built from
  \<^verbatim>\<open>data\<close>, the missing columns are filled with 0 and the columns are put in the order of
  \<^verbatim>\<open>feature_names\<close>. The result is the single row of the frame.
\<close>

definition align_frame :: "(string \<rightharpoonup> real) \<Rightarrow> string list \<Rightarrow> exn + real list" where
  "align_frame data feature_names =
     (let df = data;
          df = fill_missing feature_names df
      in select_columns df feature_names)"

text \<open>The row that the alignment produces: the listed values, 0 where the key is absent.\<close>

definition aligned :: "(string \<rightharpoonup> real) \<Rightarrow> string list \<Rightarrow> real list" where
  "aligned data feature_names =
     map (\<lambda>c. case data c of None \<Rightarrow> 0 | Some v \<Rightarrow> v) feature_names"

definition preprocess_input :: "(string \<rightharpoonup> real) \<Rightarrow> (string \<rightharpoonup> pyobj) \<Rightarrow> exn + matrix" where
  "preprocess_input data model_package =
     and_then (getitem model_package ''feature_names'') (\<lambda>names_obj.
     and_then (iterate names_obj) (\<lambda>feature_names.
     and_then (align_frame data feature_names) (\<lambda>row.
     and_then (getitem model_package ''scaler'') (\<lambda>scaler.
     transform scaler [row]))))"

section \<open>The prediction branch of \<^verbatim>\<open>main\<close>\<close>

text \<open>
  What \<^verbatim>\<open>main\<close> computes when the form is submitted (lines 366 to 373 and 427); the
  statements in between only render the results. No statement of the branch is inside a
  \<^verbatim>\<open>try\<close>, so an exception leaves \<^verbatim>\<open>main\<close>.
\<close>

record prediction_result =
  res_prediction :: int
  res_churn_prob :: real
  res_retain_prob :: real
  res_risk :: risk
  res_recommendations :: "pystr list"

definition main_predict ::
  "(string \<rightharpoonup> real) \<Rightarrow> (string \<rightharpoonup> pyobj) \<Rightarrow> exn + prediction_result" where
  "main_predict input_data model_package =
     and_then (preprocess_input input_data model_package) (\<lambda>processed_data.
     and_then (getitem model_package ''model'') (\<lambda>model.
     and_then (predict model processed_data) (\<lambda>labels.
     and_then (subscript labels 0) (\<lambda>prediction.
     and_then (predict_proba model processed_data) (\<lambda>probas.
     and_then (subscript probas 0) (\<lambda>prediction_proba.
     and_then (subscript prediction_proba 1) (\<lambda>churn_prob.
     and_then (subscript prediction_proba 0) (\<lambda>retain_prob.
     let risk = get_risk_level churn_prob in
     and_then (get_recommendations churn_prob input_data) (\<lambda>recommendations.
     Inr \<lparr>res_prediction = prediction, res_churn_prob = churn_prob,
          res_retain_prob = retain_prob, res_risk = risk,
          res_recommendations = recommendations\<rparr>)))))))))"

section \<open>Loading the artifact: \<^verbatim>\<open>load_model\<close>\<close>








section \<open>Example inputs\<close>

text \<open>
  The dictionary \<^verbatim>\<open>input_data\<close> that \<^verbatim>\<open>main\<close> builds from the form, at the default values of
  the form (scenario A of the specification), and the same with the three values of
  scenario B.
\<close>

definition scenario_A :: "string \<rightharpoonup> real" where
  "scenario_A = map_of
     [(''Customer_Service_Calls'', 3), (''Lifetime_Value'', 2000),
      (''Cart_Abandonment_Rate'', 50), (''Age'', 35), (''Total_Purchases'', 15),
      (''Discount_Usage_Rate'', 40), (''Days_Since_Last_Purchase'', 30),
      (''Average_Order_Value'', 120), (''Email_Open_Rate'', 25),
      (''Session_Duration_Avg'', 30), (''Pages_Per_Session'', 8),
      (''Mobile_App_Usage'', 30), (''Returns_Rate'', 5), (''Login_Frequency'', 15),
      (''Credit_Balance'', 500)]"

definition scenario_B :: "string \<rightharpoonup> real" where
  "scenario_B = scenario_A(''Customer_Service_Calls'' \<mapsto> 7,
     ''Cart_Abandonment_Rate'' \<mapsto> 65, ''Days_Since_Last_Purchase'' \<mapsto> 90)"

text \<open>
  The fifteen feature names in the order of the specification (section 3), which is also
  the order of the keys of \<^verbatim>\<open>input_data\<close> in \<^verbatim>\<open>main\<close>; and scenario C: the default
  input without \<^verbatim>\<open>Credit_Balance\<close> and \<^verbatim>\<open>Mobile_App_Usage\<close>.
\<close>

definition example_feature_names :: "string list" where
  "example_feature_names =
     [''Customer_Service_Calls'', ''Lifetime_Value'', ''Cart_Abandonment_Rate'', ''Age'',
      ''Total_Purchases'', ''Discount_Usage_Rate'', ''Days_Since_Last_Purchase'',
      ''Average_Order_Value'', ''Email_Open_Rate'', ''Session_Duration_Avg'',
      ''Pages_Per_Session'', ''Mobile_App_Usage'', ''Returns_Rate'', ''Login_Frequency'',
      ''Credit_Balance'']"

definition scenario_C :: "string \<rightharpoonup> real" where
  "scenario_C = scenario_A(''Credit_Balance'' := None, ''Mobile_App_Usage'' := None)"

text \<open>
  Example artifacts. The working one has a scaler that returns its input and a classifier
  that answers label 0 with probabilities 0.58 and 0.42 for every row. The others differ
  from it in one field: a scaler that raises, a classifier whose \<^verbatim>\<open>predict\<close> raises, a
  classifier whose \<^verbatim>\<open>predict_proba\<close> raises, and no \<^verbatim>\<open>'scaler'\<close> field at all.
\<close>

definition shape_error :: exn where
  "shape_error = Exn ''ValueError'' ''X has 15 features, but 20 are expected''"

definition working_package :: "string \<rightharpoonup> pyobj" where
  "working_package =
     [''feature_names'' \<mapsto> Names example_feature_names,
      ''scaler'' \<mapsto> Scaler (\<lambda>X. Inr X),
      ''model'' \<mapsto> Classifier (\<lambda>X. Inr (map (\<lambda>row. 0) X))
                            (\<lambda>X. Inr (map (\<lambda>row. [0.58, 0.42]) X))]"

definition failing_scaler_package :: "string \<rightharpoonup> pyobj" where
  "failing_scaler_package =
     working_package(''scaler'' \<mapsto> Scaler (\<lambda>X. Inl shape_error))"

definition failing_predict_package :: "string \<rightharpoonup> pyobj" where
  "failing_predict_package =
     working_package(''model'' \<mapsto>
       Classifier (\<lambda>X. Inl shape_error) (\<lambda>X. Inr (map (\<lambda>row. [0.58, 0.42]) X)))"

definition failing_proba_package :: "string \<rightharpoonup> pyobj" where
  "failing_proba_package =
     working_package(''model'' \<mapsto>
       Classifier (\<lambda>X. Inr (map (\<lambda>row. 0) X)) (\<lambda>X. Inl shape_error))"

definition package_without_scaler :: "string \<rightharpoonup> pyobj" where
  "package_without_scaler = working_package(''scaler'' := None)"

section \<open>Facts about the tiers and the messages\<close>

lemmas level_defs = level_very_high_def level_high_def level_normal_def level_low_def

lemmas msg_defs =
  msg_urgent_intervention_def msg_direct_contact_def msg_promotion_def
  msg_reengagement_campaign_def msg_monitoring_def msg_loyalty_program_def
  msg_retention_maintenance_def msg_referral_def msg_service_escalation_def
  msg_checkout_improvement_def msg_win_back_def

lemma risk_tier_eq:
  "risk_tier p =
     Some (if p \<ge> 0.7 then Critical else if p \<ge> 0.5 then High
           else if p \<ge> 0.3 then Moderate else Low)"
  by (simp add: risk_tier_def get_risk_level_def tier_of_level_def level_defs)

lemma messages_distinct:
  "distinct (all_base_messages @ supplementary_messages)"
  by (simp add: all_base_messages_def supplementary_messages_def msg_defs)

lemma length_base_messages: "length (base_messages t) = 2"
  by (cases t) simp_all

lemma filter_base_messages:
  "filter (\<lambda>m. m \<in> set all_base_messages) (base_messages t) = base_messages t"
  by (cases t) (simp_all add: all_base_messages_def)

lemma supplementary_not_base:
  "m \<in> set supplementary_messages \<Longrightarrow> m \<notin> set all_base_messages"
  using messages_distinct by auto

lemma base_not_supplementary:
  "m \<in> set (base_messages t) \<Longrightarrow> m \<notin> set supplementary_messages"
proof
  assume b: "m \<in> set (base_messages t)" and s: "m \<in> set supplementary_messages"
  from b have "m \<in> set all_base_messages"
    by (cases t) (auto simp add: all_base_messages_def)
  with s show False using supplementary_not_base by blast
qed

lemma supplement_props:
  "length (supplement c a n) \<le> 3"
  "set (supplement c a n) \<subseteq> set supplementary_messages"
  by (auto simp add: supplement_def supplementary_messages_def)

lemma has_checked_keysD:
  assumes "has_checked_keys input_data"
  obtains calls abandonment days where
    "input_data ''Customer_Service_Calls'' = Some calls"
    "input_data ''Cart_Abandonment_Rate'' = Some abandonment"
    "input_data ''Days_Since_Last_Purchase'' = Some days"
  using assms by (auto simp add: has_checked_keys_def checked_keys_def)

lemma scenario_A_lookup:
  "scenario_A ''Customer_Service_Calls'' = Some 3"
  "scenario_A ''Cart_Abandonment_Rate'' = Some 50"
  "scenario_A ''Days_Since_Last_Purchase'' = Some 30"
  by (simp_all add: scenario_A_def)

lemma scenario_B_lookup:
  "scenario_B ''Customer_Service_Calls'' = Some 7"
  "scenario_B ''Cart_Abandonment_Rate'' = Some 65"
  "scenario_B ''Days_Since_Last_Purchase'' = Some 90"
  by (simp_all add: scenario_B_def scenario_A_def)

lemma has_checked_keys_scenario:
  "has_checked_keys scenario_A" "has_checked_keys scenario_B"
  by (simp_all add: has_checked_keys_def checked_keys_def scenario_A_lookup scenario_B_lookup)

lemma supplement_membership:
  "msg_service_escalation \<in> set (base_messages t @ supplement c a n) \<longleftrightarrow> c > 5"
  "msg_checkout_improvement \<in> set (base_messages t @ supplement c a n) \<longleftrightarrow> a > 60"
  "msg_win_back \<in> set (base_messages t @ supplement c a n) \<longleftrightarrow> n > 60"
  by (cases t; simp add: supplement_def msg_defs)+

text \<open>
  The result of \<^verbatim>\<open>get_recommendations\<close> on a dictionary that has the three keys: the two
  messages of the branch taken, then what the three checks append.
\<close>

lemma get_recommendations_eq:
  assumes "input_data ''Customer_Service_Calls'' = Some calls"
    and "input_data ''Cart_Abandonment_Rate'' = Some abandonment"
    and "input_data ''Days_Since_Last_Purchase'' = Some days"
    and "risk_tier p = Some t"
  shows "get_recommendations p input_data =
           Inr (base_messages t @ supplement calls abandonment days)"
  using assms
  by (auto simp add: get_recommendations_def getitem_def risk_tier_eq supplement_def)

section \<open>The risk-tier mapping\<close>

text \<open>
  Claim C1. The risk-tier mapping is the step function with inclusive lower boundaries,
  tested from the highest threshold down: a churn probability of at least 0.70 is Critical,
  one in [0.50, 0.70) is High, one in [0.30, 0.50) is Moderate and one below 0.30 is Low.
  In particular 0.70 is Critical, 0.50 is High and 0.30 is Moderate.
\<close>

theorem get_risk_level_step:
  "(p \<ge> 0.7 \<longrightarrow> risk_tier p = Some Critical) \<and>
   (0.5 \<le> p \<and> p < 0.7 \<longrightarrow> risk_tier p = Some High) \<and>
   (0.3 \<le> p \<and> p < 0.5 \<longrightarrow> risk_tier p = Some Moderate) \<and>
   (p < 0.3 \<longrightarrow> risk_tier p = Some Low) \<and>
   risk_tier 0.7 = Some Critical \<and> risk_tier 0.5 = Some High \<and>
   risk_tier 0.3 = Some Moderate"
  by (simp add: risk_tier_eq)

theorem get_risk_level_step_witness:
  "risk_tier 0.78 = Some Critical \<and> risk_tier 0.6 = Some High \<and>
   risk_tier 0.42 = Some Moderate \<and> risk_tier 0.1 = Some Low"
  using get_risk_level_step [of "0.78"] get_risk_level_step [of "0.6"]
    get_risk_level_step [of "0.42"] get_risk_level_step [of "0.1"]
  by simp

text \<open>
  Claim C10. The risk-tier mapping is total over all real inputs, not only over [0, 1]:
  every churn probability has exactly one of the four tiers; a value of at least 0.7 is
  Critical also above 1, and a value below 0.3 is Low also when negative.
\<close>

theorem risk_tier_total:
  "(\<exists>!t. risk_tier p = Some t) \<and>
   (p \<ge> 0.7 \<longrightarrow> risk_tier p = Some Critical) \<and>
   (p > 1 \<longrightarrow> risk_tier p = Some Critical) \<and>
   (p < 0.3 \<longrightarrow> risk_tier p = Some Low) \<and>
   (p < 0 \<longrightarrow> risk_tier p = Some Low)"
  by (simp add: risk_tier_eq)

theorem risk_tier_total_witness:
  "risk_tier 1.5 = Some Critical \<and> risk_tier (- 0.2) = Some Low \<and>
   risk_tier 0.1 = Some Low \<and> risk_tier 0.7 = Some Critical"
  using risk_tier_total [of "1.5"] risk_tier_total [of "- 0.2"]
    risk_tier_total [of "0.1"] risk_tier_total [of "0.7"]
  by simp

section \<open>The recommendation engine\<close>

text \<open>
  Claim C3. For every tier, the recommendations contain exactly the two base messages of
  that tier, whatever the feature values: the list starts with them, and they are the only
  base messages of any tier in it.
\<close>

theorem base_messages_always:
  assumes "has_checked_keys input_data" and "risk_tier p = Some t"
  shows "\<exists>recs. get_recommendations p input_data = Inr recs \<and>
           length (base_messages t) = 2 \<and>
           take 2 recs = base_messages t \<and>
           filter (\<lambda>m. m \<in> set all_base_messages) recs = base_messages t"
proof -
  from assms(1) obtain c a n where k:
    "input_data ''Customer_Service_Calls'' = Some c"
    "input_data ''Cart_Abandonment_Rate'' = Some a"
    "input_data ''Days_Since_Last_Purchase'' = Some n"
    by (rule has_checked_keysD)
  have r: "get_recommendations p input_data = Inr (base_messages t @ supplement c a n)"
    using get_recommendations_eq [OF k assms(2)] .
  have "\<forall>m \<in> set (supplement c a n). m \<notin> set all_base_messages"
    using supplement_props(2) [of c a n] supplementary_not_base by blast
  then have "filter (\<lambda>m. m \<in> set all_base_messages) (supplement c a n) = []"
    by (simp add: filter_empty_conv)
  then have "filter (\<lambda>m. m \<in> set all_base_messages) (base_messages t @ supplement c a n)
      = base_messages t"
    by (simp add: filter_base_messages)
  with r show ?thesis by (simp add: length_base_messages)
qed

theorem base_messages_always_witness:
  "(\<exists>recs. get_recommendations 0.78 scenario_B = Inr recs \<and>
      take 2 recs = [msg_urgent_intervention, msg_direct_contact]) \<and>
   (\<exists>recs. get_recommendations 0.6 scenario_A = Inr recs \<and>
      take 2 recs = [msg_promotion, msg_reengagement_campaign]) \<and>
   (\<exists>recs. get_recommendations 0.42 scenario_A = Inr recs \<and>
      take 2 recs = [msg_monitoring, msg_loyalty_program]) \<and>
   (\<exists>recs. get_recommendations 0.1 scenario_B = Inr recs \<and>
      take 2 recs = [msg_retention_maintenance, msg_referral])"
  using base_messages_always [of scenario_B "0.78" Critical]
    base_messages_always [of scenario_A "0.6" High]
    base_messages_always [of scenario_A "0.42" Moderate]
    base_messages_always [of scenario_B "0.1" Low]
  by (simp add: has_checked_keys_scenario risk_tier_eq) blast

text \<open>
  Claim C8. For every churn probability and every feature mapping that has the three checked
  keys, the list of recommendations has at least 2 and at most 5 elements; its first two
  elements are the base messages of the tier, and every later element is a supplementary
  message.
\<close>

theorem recommendations_shape:
  assumes "has_checked_keys input_data"
  shows "\<exists>recs t. get_recommendations p input_data = Inr recs \<and> risk_tier p = Some t \<and>
           2 \<le> length recs \<and> length recs \<le> 5 \<and>
           take 2 recs = base_messages t \<and>
           set (take 2 recs) \<inter> set supplementary_messages = {} \<and>
           set (drop 2 recs) \<subseteq> set supplementary_messages"
proof -
  from assms obtain c a n where k:
    "input_data ''Customer_Service_Calls'' = Some c"
    "input_data ''Cart_Abandonment_Rate'' = Some a"
    "input_data ''Days_Since_Last_Purchase'' = Some n"
    by (rule has_checked_keysD)
  obtain t where t: "risk_tier p = Some t" by (simp add: risk_tier_eq)
  have r: "get_recommendations p input_data = Inr (base_messages t @ supplement c a n)"
    using get_recommendations_eq [OF k t] .
  have "set (base_messages t) \<inter> set supplementary_messages = {}"
    using base_not_supplementary by blast
  with r t supplement_props [of c a n] show ?thesis
    by (simp add: length_base_messages)
qed

theorem recommendations_shape_witness:
  "\<exists>recs. get_recommendations 0.78 scenario_B = Inr recs \<and>
     2 \<le> length recs \<and> length recs \<le> 5 \<and>
     take 2 recs = base_messages Critical \<and>
     set (drop 2 recs) \<subseteq> set supplementary_messages"
  using recommendations_shape [of scenario_B "0.78"]
  by (auto simp add: has_checked_keys_scenario risk_tier_eq)

text \<open>
  Claim C9. The recommendations depend only on the churn probability and on the three
  checked features: two feature mappings that agree on \<^verbatim>\<open>Customer_Service_Calls\<close>,
  \<^verbatim>\<open>Cart_Abandonment_Rate\<close> and \<^verbatim>\<open>Days_Since_Last_Purchase\<close> give, at the same churn
  probability, the same result, whatever their other entries are.
\<close>

theorem recommendations_depend_on_three:
  assumes "\<forall>k \<in> set checked_keys. d1 k = d2 k"
  shows "get_recommendations p d1 = get_recommendations p d2"
proof -
  from assms have e:
    "d1 ''Customer_Service_Calls'' = d2 ''Customer_Service_Calls''"
    "d1 ''Cart_Abandonment_Rate'' = d2 ''Cart_Abandonment_Rate''"
    "d1 ''Days_Since_Last_Purchase'' = d2 ''Days_Since_Last_Purchase''"
    by (simp_all add: checked_keys_def)
  show ?thesis
    by (simp only: get_recommendations_def getitem_def e)
qed

theorem recommendations_depend_on_three_witness:
  "get_recommendations 0.42 scenario_A =
   get_recommendations 0.42 (scenario_A(''Age'' \<mapsto> 70, ''Lifetime_Value'' \<mapsto> 10,
     ''Credit_Balance'' \<mapsto> 0))"
  by (rule recommendations_depend_on_three) (simp add: checked_keys_def)

text \<open>
  Claim C4. The three supplementary rules are evaluated in a fixed order: more than 5
  customer service calls append the service message, then a cart abandonment rate above 60
  appends the checkout message, then more than 60 days since the last purchase append the
  win-back message. Each fires exactly when its strict inequality holds, independently of
  the others. For the Critical input with 7 calls, rate 65.0 and 90 days the result is the
  two Critical base messages followed by all three supplementary messages in that order.
\<close>

theorem supplementary_rules_in_order:
  "(input_data ''Customer_Service_Calls'' = Some calls \<and>
    input_data ''Cart_Abandonment_Rate'' = Some abandonment \<and>
    input_data ''Days_Since_Last_Purchase'' = Some days \<and>
    risk_tier p = Some t \<longrightarrow>
      (\<exists>recs. get_recommendations p input_data = Inr recs \<and>
         recs = base_messages t
                @ (if calls > 5 then [msg_service_escalation] else [])
                @ (if abandonment > 60 then [msg_checkout_improvement] else [])
                @ (if days > 60 then [msg_win_back] else []) \<and>
         (msg_service_escalation \<in> set recs \<longleftrightarrow> calls > 5) \<and>
         (msg_checkout_improvement \<in> set recs \<longleftrightarrow> abandonment > 60) \<and>
         (msg_win_back \<in> set recs \<longleftrightarrow> days > 60))) \<and>
   risk_tier 0.78 = Some Critical \<and>
   get_recommendations 0.78 scenario_B =
     Inr [msg_urgent_intervention, msg_direct_contact, msg_service_escalation,
          msg_checkout_improvement, msg_win_back]"
proof -
  have general: "\<exists>recs. get_recommendations p input_data = Inr recs \<and>
         recs = base_messages t
                @ (if calls > 5 then [msg_service_escalation] else [])
                @ (if abandonment > 60 then [msg_checkout_improvement] else [])
                @ (if days > 60 then [msg_win_back] else []) \<and>
         (msg_service_escalation \<in> set recs \<longleftrightarrow> calls > 5) \<and>
         (msg_checkout_improvement \<in> set recs \<longleftrightarrow> abandonment > 60) \<and>
         (msg_win_back \<in> set recs \<longleftrightarrow> days > 60)"
    if k: "input_data ''Customer_Service_Calls'' = Some calls"
      "input_data ''Cart_Abandonment_Rate'' = Some abandonment"
      "input_data ''Days_Since_Last_Purchase'' = Some days"
      and t: "risk_tier p = Some t"
  proof -
    have r: "get_recommendations p input_data =
        Inr (base_messages t @ supplement calls abandonment days)"
      using get_recommendations_eq [OF k t] .
    have s: "base_messages t
                @ (if calls > 5 then [msg_service_escalation] else [])
                @ (if abandonment > 60 then [msg_checkout_improvement] else [])
                @ (if days > 60 then [msg_win_back] else [])
             = base_messages t @ supplement calls abandonment days"
      by (simp only: supplement_def)
    show ?thesis
      unfolding r s using supplement_membership [of t calls abandonment days] by simp
  qed
  have b: "get_recommendations 0.78 scenario_B =
     Inr [msg_urgent_intervention, msg_direct_contact, msg_service_escalation,
          msg_checkout_improvement, msg_win_back]"
    by (simp add: get_recommendations_def getitem_def scenario_B_lookup)
  have c: "risk_tier 0.78 = Some Critical" by (simp add: risk_tier_eq)
  from general b c show ?thesis by blast
qed

theorem supplementary_rules_in_order_witness:
  "get_recommendations 0.42 scenario_A = Inr [msg_monitoring, msg_loyalty_program] \<and>
   get_recommendations 0.6 (scenario_A(''Cart_Abandonment_Rate'' \<mapsto> 60.5)) =
     Inr [msg_promotion, msg_reengagement_campaign, msg_checkout_improvement]"
  using supplementary_rules_in_order [of scenario_A 3 50 30 "0.42" Moderate]
    supplementary_rules_in_order
      [of "scenario_A(''Cart_Abandonment_Rate'' \<mapsto> 60.5)" 3 "60.5" 30 "0.6" High]
  by (simp add: scenario_A_lookup risk_tier_eq)

section \<open>The feature aligner\<close>

lemma fill_missing_apply:
  "fill_missing feature_names df k =
     (if df k = None \<and> k \<in> set feature_names then Some 0 else df k)"
  unfolding fill_missing_def
  by (induction feature_names arbitrary: df) auto

lemma select_columns_present:
  "\<forall>c \<in> set cols. df c \<noteq> None \<Longrightarrow>
   select_columns df cols = Inr (map (\<lambda>c. the (df c)) cols)"
  by (induction cols) (auto simp add: and_then_def)

lemma align_frame_eq:
  "align_frame data feature_names =
     Inr (map (\<lambda>c. case data c of None \<Rightarrow> 0 | Some v \<Rightarrow> v) feature_names)"
proof -
  have "\<forall>c \<in> set feature_names. fill_missing feature_names data c \<noteq> None"
    by (simp add: fill_missing_apply)
  then have "select_columns (fill_missing feature_names data) feature_names =
      Inr (map (\<lambda>c. the (fill_missing feature_names data c)) feature_names)"
    by (rule select_columns_present)
  also have "map (\<lambda>c. the (fill_missing feature_names data c)) feature_names =
      map (\<lambda>c. case data c of None \<Rightarrow> 0 | Some v \<Rightarrow> v) feature_names"
    by (rule map_cong) (auto simp add: fill_missing_apply split: option.splits)
  finally show ?thesis by (simp add: align_frame_def)
qed

text \<open>Scenario C of the specification, evaluated.\<close>

lemma align_scenario_C:
  "align_frame scenario_C example_feature_names =
     Inr [3, 2000, 50, 35, 15, 40, 30, 120, 25, 30, 8, 0, 5, 15, 0]"
  by (simp add: align_frame_eq example_feature_names_def scenario_C_def scenario_A_def)

text \<open>
  Claim C2. For every raw feature mapping and every list \<^verbatim>\<open>feature_names\<close> of length N, the
  alignment yields a row of length N whose i-th entry is the raw value of the i-th name if
  the raw mapping has that key and 0 otherwise. Keys of the raw mapping that are not listed
  have no effect, and the alignment fails for no raw mapping.
\<close>

theorem align_frame_dense:
  "\<exists>row. align_frame data feature_names = Inr row \<and>
     length row = length feature_names \<and>
     (\<forall>i < length feature_names.
        row ! i = (case data (feature_names ! i) of Some v \<Rightarrow> v | None \<Rightarrow> 0)) \<and>
     (\<forall>data'. (\<forall>k \<in> set feature_names. data' k = data k) \<longrightarrow>
        align_frame data' feature_names = Inr row)"
proof -
  have "map (\<lambda>c. case data' c of None \<Rightarrow> 0 | Some v \<Rightarrow> v) feature_names =
        map (\<lambda>c. case data c of None \<Rightarrow> 0 | Some v \<Rightarrow> v) feature_names"
    if "\<forall>k \<in> set feature_names. data' k = data k" for data'
    using that by (intro map_cong) simp_all
  then show ?thesis
    by (auto simp add: align_frame_eq split: option.splits)
qed

theorem align_frame_dense_witness:
  "\<exists>row. align_frame scenario_C example_feature_names = Inr row \<and>
     length row = 15 \<and> row ! 0 = 3 \<and> row ! 11 = 0 \<and> row ! 14 = 0 \<and>
     align_frame (scenario_C(''Unlisted'' \<mapsto> 9)) example_feature_names = Inr row"
proof -
  from align_frame_dense [of scenario_C example_feature_names]
  obtain row where r: "align_frame scenario_C example_feature_names = Inr row"
    and l: "length row = length example_feature_names"
    and n: "\<forall>i < length example_feature_names.
        row ! i = (case scenario_C (example_feature_names ! i) of Some v \<Rightarrow> v | None \<Rightarrow> 0)"
    and x: "\<forall>data'. (\<forall>k \<in> set example_feature_names. data' k = scenario_C k) \<longrightarrow>
        align_frame data' example_feature_names = Inr row"
    by blast
  have len: "length example_feature_names = 15"
    by (simp add: example_feature_names_def)
  from n len have "row ! 0 = 3" "row ! 11 = 0" "row ! 14 = 0"
    by (simp_all add: example_feature_names_def scenario_C_def scenario_A_def)
  moreover have "\<forall>k \<in> set example_feature_names.
      (scenario_C(''Unlisted'' \<mapsto> 9)) k = scenario_C k"
    by (simp add: example_feature_names_def)
  with x have "align_frame (scenario_C(''Unlisted'' \<mapsto> 9)) example_feature_names = Inr row"
    by blast
  ultimately show ?thesis using r l len by simp
qed

section \<open>The prediction branch and the artifact\<close>

lemma and_then_Inr: "and_then r f = Inr y \<longleftrightarrow> (\<exists>x. r = Inr x \<and> f x = Inr y)"
  by (cases r) (simp_all add: and_then_def)

lemma and_then_simps [simp]:
  "and_then (Inl e) f = Inl e"
  "and_then (Inr x) f = f x"
  by (simp_all add: and_then_def)

lemma getitem_Inr: "getitem d k = Inr v \<longleftrightarrow> d k = Some v"
  by (simp add: getitem_def split: option.splits)

lemma iterate_Inr: "iterate obj = Inr ns \<longleftrightarrow> obj = Names ns"
  by (cases obj) simp_all

lemma transform_Inr: "transform obj M = Inr X \<longleftrightarrow> (\<exists>f. obj = Scaler f \<and> f M = Inr X)"
  by (cases obj) simp_all

lemma predict_Inr:
  "predict obj M = Inr ls \<longleftrightarrow> (\<exists>g h. obj = Classifier g h \<and> g M = Inr ls)"
  by (cases obj) simp_all

lemma predict_proba_Inr:
  "predict_proba obj M = Inr ps \<longleftrightarrow> (\<exists>g h. obj = Classifier g h \<and> h M = Inr ps)"
  by (cases obj) simp_all

lemma subscript_Inr: "subscript xs i = Inr x \<longleftrightarrow> i < length xs \<and> xs ! i = x"
  by (simp add: subscript_def)

lemma preprocess_input_eq:
  assumes "model_package ''feature_names'' = Some (Names ns)"
    and "model_package ''scaler'' = Some (Scaler f)"
  shows "preprocess_input data model_package = f [aligned data ns]"
  using assms by (simp add: preprocess_input_def getitem_def align_frame_eq aligned_def)

lemma preprocess_input_Inr:
  assumes "preprocess_input data model_package = Inr X"
  shows "\<exists>ns f. model_package ''feature_names'' = Some (Names ns) \<and>
           model_package ''scaler'' = Some (Scaler f) \<and> f [aligned data ns] = Inr X"
  using assms
  by (auto simp add: preprocess_input_def and_then_Inr getitem_Inr iterate_Inr
      transform_Inr align_frame_eq aligned_def)

lemma main_predict_Inr:
  assumes "main_predict input_data model_package = Inr r"
  shows "\<exists>ns f g h X labels probas.
           model_package ''feature_names'' = Some (Names ns) \<and>
           model_package ''scaler'' = Some (Scaler f) \<and>
           model_package ''model'' = Some (Classifier g h) \<and>
           f [aligned input_data ns] = Inr X \<and> g X = Inr labels \<and> h X = Inr probas \<and>
           0 < length labels \<and> res_prediction r = labels ! 0 \<and>
           0 < length probas \<and> 1 < length (probas ! 0) \<and>
           res_churn_prob r = probas ! 0 ! 1 \<and> res_retain_prob r = probas ! 0 ! 0 \<and>
           res_risk r = get_risk_level (res_churn_prob r) \<and>
           get_recommendations (res_churn_prob r) input_data = Inr (res_recommendations r)"
proof -
  from assms obtain processed_data model labels prediction probas prediction_proba
      churn_prob retain_prob recommendations where
    s: "preprocess_input input_data model_package = Inr processed_data"
      "getitem model_package ''model'' = Inr model"
      "predict model processed_data = Inr labels"
      "subscript labels 0 = Inr prediction"
      "predict_proba model processed_data = Inr probas"
      "subscript probas 0 = Inr prediction_proba"
      "subscript prediction_proba 1 = Inr churn_prob"
      "subscript prediction_proba 0 = Inr retain_prob"
      "get_recommendations churn_prob input_data = Inr recommendations"
      and r: "r = \<lparr>res_prediction = prediction, res_churn_prob = churn_prob,
          res_retain_prob = retain_prob, res_risk = get_risk_level churn_prob,
          res_recommendations = recommendations\<rparr>"
    unfolding main_predict_def and_then_Inr Let_def by blast
  from s(1) obtain ns f where p: "model_package ''feature_names'' = Some (Names ns)"
      "model_package ''scaler'' = Some (Scaler f)" "f [aligned input_data ns] = Inr processed_data"
    using preprocess_input_Inr by blast
  from s(2,3,5) obtain g h where m: "model_package ''model'' = Some (Classifier g h)"
      "g processed_data = Inr labels" "h processed_data = Inr probas"
    by (auto simp add: getitem_Inr predict_Inr predict_proba_Inr)
  from s(4,6,7,8) have i: "0 < length labels" "labels ! 0 = prediction"
      "0 < length probas" "1 < length (probas ! 0)" "probas ! 0 ! 1 = churn_prob"
      "probas ! 0 ! 0 = retain_prob"
    by (auto simp add: subscript_Inr)
  from p m i s(9) r show ?thesis by simp
qed


lemma package_lookups:
  "working_package ''feature_names'' = Some (Names example_feature_names)"
  "working_package ''scaler'' = Some (Scaler (\<lambda>X. Inr X))"
  "working_package ''model'' =
     Some (Classifier (\<lambda>X. Inr (map (\<lambda>row. 0) X)) (\<lambda>X. Inr (map (\<lambda>row. [0.58, 0.42]) X)))"
  "failing_scaler_package ''feature_names'' = Some (Names example_feature_names)"
  "failing_scaler_package ''scaler'' = Some (Scaler (\<lambda>X. Inl shape_error))"
  "failing_scaler_package ''model'' =
     Some (Classifier (\<lambda>X. Inr (map (\<lambda>row. 0) X)) (\<lambda>X. Inr (map (\<lambda>row. [0.58, 0.42]) X)))"
  "failing_predict_package ''feature_names'' = Some (Names example_feature_names)"
  "failing_predict_package ''scaler'' = Some (Scaler (\<lambda>X. Inr X))"
  "failing_predict_package ''model'' =
     Some (Classifier (\<lambda>X. Inl shape_error) (\<lambda>X. Inr (map (\<lambda>row. [0.58, 0.42]) X)))"
  "failing_proba_package ''feature_names'' = Some (Names example_feature_names)"
  "failing_proba_package ''scaler'' = Some (Scaler (\<lambda>X. Inr X))"
  "failing_proba_package ''model'' =
     Some (Classifier (\<lambda>X. Inr (map (\<lambda>row. 0) X)) (\<lambda>X. Inl shape_error))"
  "package_without_scaler ''feature_names'' = Some (Names example_feature_names)"
  "package_without_scaler ''scaler'' = None"
  by (simp_all add: working_package_def failing_scaler_package_def
      failing_predict_package_def failing_proba_package_def package_without_scaler_def)

lemma recommendations_scenario_A:
  "get_recommendations 0.42 scenario_A = Inr [msg_monitoring, msg_loyalty_program]"
  by (simp add: get_recommendations_def getitem_def scenario_A_lookup)

lemma main_predict_working:
  "main_predict scenario_A working_package =
     Inr \<lparr>res_prediction = 0, res_churn_prob = 0.42, res_retain_prob = 0.58,
          res_risk = get_risk_level 0.42,
          res_recommendations = [msg_monitoring, msg_loyalty_program]\<rparr>"
  using recommendations_scenario_A
  by (simp add: main_predict_def preprocess_input_eq [OF package_lookups(1,2)]
      getitem_def package_lookups subscript_def)

text \<open>
  Claim C6, amended. When the scaler, \<^verbatim>\<open>predict\<close> or \<^verbatim>\<open>predict_proba\<close> raises during a
  prediction, the prediction branch of \<^verbatim>\<open>main\<close> ends with that very exception, unchanged:
  nothing catches it and nothing wraps it. No default prediction is substituted: a result
  is produced only when all three calls returned, and its label and probabilities are the
  ones the classifier returned for the first row.
\<close>

theorem inference_failure_propagates:
  assumes "model_package ''feature_names'' = Some (Names ns)"
    and "model_package ''scaler'' = Some (Scaler f)"
    and "model_package ''model'' = Some (Classifier g h)"
  shows
    "(f [aligned input_data ns] = Inl e \<longrightarrow>
        main_predict input_data model_package = Inl e) \<and>
     (f [aligned input_data ns] = Inr X \<and> g X = Inl e \<longrightarrow>
        main_predict input_data model_package = Inl e) \<and>
     (f [aligned input_data ns] = Inr X \<and> g X = Inr labels \<and> labels \<noteq> [] \<and> h X = Inl e \<longrightarrow>
        main_predict input_data model_package = Inl e) \<and>
     (\<forall>r. main_predict input_data model_package = Inr r \<longrightarrow>
        (\<exists>X labels probas.
           f [aligned input_data ns] = Inr X \<and> g X = Inr labels \<and> h X = Inr probas \<and>
           labels \<noteq> [] \<and> res_prediction r = labels ! 0 \<and>
           probas \<noteq> [] \<and> 1 < length (probas ! 0) \<and>
           res_churn_prob r = probas ! 0 ! 1 \<and> res_retain_prob r = probas ! 0 ! 0))"
proof -
  note pre = preprocess_input_eq [OF assms(1,2), of input_data]
  have 1: "main_predict input_data model_package = Inl e"
    if "f [aligned input_data ns] = Inl e"
    using that by (simp add: main_predict_def pre)
  have 2: "main_predict input_data model_package = Inl e"
    if "f [aligned input_data ns] = Inr X" "g X = Inl e"
    using that assms(3) by (simp add: main_predict_def pre getitem_def)
  have 3: "main_predict input_data model_package = Inl e"
    if "f [aligned input_data ns] = Inr X" "g X = Inr labels" "labels \<noteq> []" "h X = Inl e"
    using that assms(3) by (simp add: main_predict_def pre getitem_def subscript_def)
  have 4: "\<exists>X labels probas.
           f [aligned input_data ns] = Inr X \<and> g X = Inr labels \<and> h X = Inr probas \<and>
           labels \<noteq> [] \<and> res_prediction r = labels ! 0 \<and>
           probas \<noteq> [] \<and> 1 < length (probas ! 0) \<and>
           res_churn_prob r = probas ! 0 ! 1 \<and> res_retain_prob r = probas ! 0 ! 0"
    if "main_predict input_data model_package = Inr r" for r
    using main_predict_Inr [OF that] assms by fastforce
  from 1 2 3 4 show ?thesis by blast
qed

theorem inference_failure_propagates_witness:
  "main_predict scenario_A failing_scaler_package = Inl shape_error \<and>
   main_predict scenario_A failing_predict_package = Inl shape_error \<and>
   main_predict scenario_A failing_proba_package = Inl shape_error \<and>
   (\<exists>r. main_predict scenario_A working_package = Inr r \<and>
      res_prediction r = 0 \<and> res_churn_prob r = 0.42 \<and> res_retain_prob r = 0.58)"
proof -
  have a: "main_predict scenario_A failing_scaler_package = Inl shape_error"
    using inference_failure_propagates [OF package_lookups(4,5,6), where input_data = scenario_A and e = shape_error]
    by simp
  have b: "main_predict scenario_A failing_predict_package = Inl shape_error"
    using inference_failure_propagates [OF package_lookups(7,8,9), where input_data = scenario_A
        and e = shape_error and X = "[aligned scenario_A example_feature_names]"]
    by simp
  have c: "main_predict scenario_A failing_proba_package = Inl shape_error"
    using inference_failure_propagates [OF package_lookups(10,11,12), where input_data = scenario_A
        and e = shape_error and X = "[aligned scenario_A example_feature_names]"
        and labels = "[0]"]
    by simp
  obtain r where r: "main_predict scenario_A working_package = Inr r"
    using main_predict_working by blast
  with inference_failure_propagates [OF package_lookups(1,2,3), where input_data = scenario_A]
  have "res_prediction r = 0 \<and> res_churn_prob r = 0.42 \<and> res_retain_prob r = 0.58"
    by auto
  with a b c r show ?thesis by blast
qed

text \<open>
  Claim C6 as stated asks for an exception of class \<^verbatim>\<open>InferenceError\<close>. The source has no
  such class: with a scaler that raises a \<^verbatim>\<open>ValueError\<close>, the branch ends with that
  \<^verbatim>\<open>ValueError\<close>.
\<close>

theorem inference_error_counterexample:
  "main_predict scenario_A failing_scaler_package = Inl shape_error \<and>
   exn_class shape_error = ''ValueError'' \<and>
   exn_class shape_error \<noteq> ''InferenceError''"
  by (simp add: main_predict_def preprocess_input_eq [OF package_lookups(4,5)]
      shape_error_def)







end
